theory Spec2Isabelle
  imports Main
begin

section \<open>The secret-message grid: a shallow embedding of secret\_message.py\<close>

text \<open>
  The script fetches a published document, reads a table of \<open>(x, character, y)\<close> rows
  out of its markup, places every character on a grid and prints the grid bottom row
  last.  Each function of the script is one definition below, under the name the
  script gives it.  What the script calls but does not define stays outside and enters
  the model as a parameter:
  \<^item> \<open>get\<close> stands for \<^verbatim>\<open>requests.get(url)\<close> followed by
    \<^verbatim>\<open>raise_for_status()\<close>: \<open>Inr body\<close> is the response text, \<open>Inl msg\<close> is a
    \<^verbatim>\<open>RequestException\<close> whose description is \<open>msg\<close>;
  \<^item> \<open>soup\<close> stands for \<^verbatim>\<open>bs(table_str, 'html.parser').find('table')\<close>: \<open>None\<close> when
    the markup has no table element, else \<open>Some rows\<close>, the rows that
    \<^verbatim>\<open>table.find_all('tr')\<close> returns, each row given by the texts
    (\<^verbatim>\<open>get_text()\<close>) of the cells that \<^verbatim>\<open>row.find_all(['td', 'th'])\<close> returns;
  \<^item> \<open>strip\<close> stands for \<^verbatim>\<open>str.strip()\<close>, the built-in that removes the whitespace at
    both ends of a cell text;
  \<^item> \<open>py_int\<close> stands for the built-in \<^verbatim>\<open>int()\<close> on a string: \<open>Some n\<close> when it returns
    \<open>n\<close>, \<open>None\<close> when it raises \<^verbatim>\<open>ValueError\<close>, the exception the row loop catches.
  Nothing is assumed about the four: every theorem holds for all of them, so for the
  built-ins of any interpreter, with their full notion of whitespace and of digits.
  The examples give them by their values on the strings that the example reads.

  A string is the list of the bytes of its UTF-8 encoding.  The script itself only
  joins strings and tests them for being empty, which reads the same on bytes as on
  characters.  Standard output is the list of the strings printed so far, one per
  call of \<^verbatim>\<open>print\<close>.  Python integers are unbounded, so coordinates are \<open>int\<close>.  The
  memory of the interpreter is not modelled.
\<close>

subsection \<open>Data\<close>

datatype py_error = IndexError | ValueError

datatype outcome = Returned | Raised py_error

type_synonym entry = "int \<times> int \<times> string"

type_synonym grid = "string list list"

type_synonym stdout = "string list"

type_synonym table = "string list list"

subsection \<open>Lists: the maximum, indexing and storing at an index\<close>

text \<open>\<^verbatim>\<open>max\<close> over an iterable: the first item, then every later item replaces the
  running maximum when it is larger; \<^verbatim>\<open>ValueError\<close> on an empty iterable.\<close>

fun py_max :: "int list \<Rightarrow> py_error + int" where
  "py_max [] = Inl ValueError"
| "py_max (x # xs) = Inr (fold max xs x)"

text \<open>The position that index \<open>i\<close> names in a list of length \<open>n\<close>: a negative index
  counts from the end, and an index outside \<open>-n \<dots> n - 1\<close> names nothing
  (\<^verbatim>\<open>IndexError\<close>).\<close>

definition py_index :: "nat \<Rightarrow> int \<Rightarrow> nat option" where
  "py_index n i =
     (let j = (if i < 0 then int n + i else i)
      in if 0 \<le> j \<and> j < int n then Some (nat j) else None)"

text \<open>\<^verbatim>\<open>xs[i] = v\<close>.\<close>

definition setitem :: "'a list \<Rightarrow> int \<Rightarrow> 'a \<Rightarrow> py_error + 'a list" where
  "setitem xs i v =
     (case py_index (length xs) i of
        None \<Rightarrow> Inl IndexError
      | Some j \<Rightarrow> Inr (xs[j := v]))"

subsection \<open>fetch\_and\_parse\_doc\<close>

definition fetch_and_parse_doc ::
  "(string \<Rightarrow> string + string) \<Rightarrow> string \<Rightarrow> stdout \<Rightarrow> string option \<times> stdout" where
  "fetch_and_parse_doc get url out =
     (case get url of
        Inr text \<Rightarrow> (Some text, out)
      | Inl err \<Rightarrow> (None, out @ [''Error fetching the document: '' @ err]))"

subsection \<open>parse\_table\_characters\<close>

text \<open>The body of the loop over the rows, with the list \<open>characters\<close> built so far.
  A \<^verbatim>\<open>ValueError\<close> of either \<^verbatim>\<open>int\<close> call is caught and the row is left out.\<close>

definition parse_row ::
  "(string \<Rightarrow> string) \<Rightarrow> (string \<Rightarrow> int option) \<Rightarrow> string list \<Rightarrow> entry list \<Rightarrow> entry list" where
  "parse_row strip py_int cells characters =
     (if length cells \<ge> 3 then
        (case py_int (strip (cells ! 0)) of
           None \<Rightarrow> characters
         | Some x \<Rightarrow>
             (let char = strip (cells ! 1) in
              case py_int (strip (cells ! 2)) of
                None \<Rightarrow> characters
              | Some y \<Rightarrow> if char \<noteq> [] then characters @ [(x, y, char)] else characters))
      else characters)"

fun parse_rows ::
  "(string \<Rightarrow> string) \<Rightarrow> (string \<Rightarrow> int option) \<Rightarrow> table \<Rightarrow> entry list \<Rightarrow> entry list" where
  "parse_rows strip py_int [] characters = characters"
| "parse_rows strip py_int (row # rows) characters =
     parse_rows strip py_int rows (parse_row strip py_int row characters)"

definition parse_table_characters ::
  "(string \<Rightarrow> string) \<Rightarrow> (string \<Rightarrow> int option) \<Rightarrow> (string \<Rightarrow> table option) \<Rightarrow> string
     \<Rightarrow> stdout \<Rightarrow> entry list \<times> stdout" where
  "parse_table_characters strip py_int soup table_str out =
     (case soup table_str of
        None \<Rightarrow> ([], out @ [''No table found in the document.''])
      | Some rows \<Rightarrow> (parse_rows strip py_int (drop 1 rows) [], out))"

subsection \<open>arrange\_chars\_into\_grid\<close>

text \<open>The nested comprehension of line 70: \<open>range\<close> of a number below 1 is empty.
  Every row is a list of its own.\<close>

definition blank_grid :: "int \<Rightarrow> int \<Rightarrow> grid" where
  "blank_grid max_x max_y = replicate (nat (max_y + 1)) (replicate (nat (max_x + 1)) '' '')"

text \<open>\<^verbatim>\<open>grid[y][x] = char\<close>: the row is looked up first, then the cell is stored.\<close>

fun place :: "grid \<Rightarrow> entry \<Rightarrow> py_error + grid" where
  "place grid (x, y, char) =
     (case py_index (length grid) y of
        None \<Rightarrow> Inl IndexError
      | Some r \<Rightarrow>
          (case setitem (grid ! r) x char of
             Inl e \<Rightarrow> Inl e
           | Inr row \<Rightarrow> Inr (grid[r := row])))"

text \<open>The loop of lines 72 and 73; the first error ends it.\<close>

fun populate :: "grid \<Rightarrow> entry list \<Rightarrow> py_error + grid" where
  "populate grid [] = Inr grid"
| "populate grid (e # es) =
     (case place grid e of
        Inl err \<Rightarrow> Inl err
      | Inr grid' \<Rightarrow> populate grid' es)"

definition arrange_chars_into_grid :: "entry list \<Rightarrow> int \<Rightarrow> int \<Rightarrow> py_error + grid" where
  "arrange_chars_into_grid characters x_scale y_scale =
     (if characters = [] then Inr []
      else
        (case py_max (map (\<lambda>(x, _, _). x) characters) of
           Inl e \<Rightarrow> Inl e
         | Inr max_x \<Rightarrow>
             (case py_max (map (\<lambda>(_, y, _). y) characters) of
                Inl e \<Rightarrow> Inl e
              | Inr max_y \<Rightarrow> populate (blank_grid max_x max_y) characters)))"

subsection \<open>print\_grid\<close>

fun print_rows :: "grid \<Rightarrow> stdout \<Rightarrow> stdout" where
  "print_rows [] out = out"
| "print_rows (row # rows) out = print_rows rows (out @ [concat row])"

definition print_grid :: "grid \<Rightarrow> stdout \<Rightarrow> stdout" where
  "print_grid grid out = print_rows (rev grid) out"

subsection \<open>extract\_secret\_message\_from\_doc\<close>

text \<open>\<^verbatim>\<open>not html\<close> holds for \<^verbatim>\<open>None\<close> and for the empty string.  The grid builder is
  called with its default scales 6 and 13.\<close>

definition extract_secret_message_from_doc ::
  "(string \<Rightarrow> string) \<Rightarrow> (string \<Rightarrow> int option) \<Rightarrow> (string \<Rightarrow> string + string)
     \<Rightarrow> (string \<Rightarrow> table option) \<Rightarrow> string \<Rightarrow> stdout \<Rightarrow> outcome \<times> stdout" where
  "extract_secret_message_from_doc strip py_int get soup url out =
     (case fetch_and_parse_doc get url out of
        (None, out1) \<Rightarrow> (Returned, out1)
      | (Some html, out1) \<Rightarrow>
          if html = [] then (Returned, out1)
          else
            (case parse_table_characters strip py_int soup html out1 of
               (characters, out2) \<Rightarrow>
                 if characters = [] then
                   (Returned, out2 @ [''No characters found in the document.''])
                 else
                   (case arrange_chars_into_grid characters 6 13 of
                      Inl e \<Rightarrow> (Raised e, out2)
                    | Inr grid \<Rightarrow> (Returned, print_grid grid out2))))"

section \<open>Auxiliary facts\<close>

subsection \<open>Indexing and maxima\<close>

lemma py_index_less: "py_index n i = Some j \<Longrightarrow> j < n"
  by (auto simp: py_index_def Let_def split: if_splits)

lemma py_index_nonneg: "0 \<le> i \<Longrightarrow> py_index n i = (if i < int n then Some (nat i) else None)"
  by (simp add: py_index_def)

lemma py_index_neg:
  "i < 0 \<Longrightarrow> py_index n i = (if - int n \<le> i then Some (nat (int n + i)) else None)"
  by (auto simp: py_index_def)

lemma py_max_eq: "py_max (x # xs) = Inr (Max (set (x # xs)))"
  using Max.set_eq_fold[of x xs] by simp

lemma py_max_Inr: "py_max xs = Inr m \<Longrightarrow> xs \<noteq> [] \<and> m = Max (set xs)"
  by (cases xs) (use py_max_eq in auto)

subsection \<open>Storing into the grid keeps its shape\<close>

lemma place_lengths: "place g e = Inr g' \<Longrightarrow> map length g' = map length g"
proof -
  obtain x y c where e: "e = (x, y, c)" by (cases e)
  assume "place g e = Inr g'"
  then obtain r k where r: "py_index (length g) y = Some r"
    and k: "py_index (length (g ! r)) x = Some k"
    and g': "g' = g[r := (g ! r)[k := c]]"
    by (auto simp: e setitem_def split: option.splits)
  have "r < length g" using r by (rule py_index_less)
  then show ?thesis
    by (simp add: g' map_update list_update_same_conv)
qed

lemma populate_lengths: "populate g es = Inr g' \<Longrightarrow> map length g' = map length g"
proof (induction es arbitrary: g)
  case Nil
  then show ?case by simp
next
  case (Cons e es)
  then show ?case
    by (auto split: sum.splits dest: place_lengths)
qed

lemma same_lengths:
  assumes "map length g' = map length g"
  shows "length g' = length g" and "r < length g \<Longrightarrow> length (g' ! r) = length (g ! r)"
proof -
  show l: "length g' = length g" using assms by (metis length_map)
  show "length (g' ! r) = length (g ! r)" if "r < length g"
    using assms that l by (metis nth_map)
qed

subsection \<open>What the population loop leaves in a cell\<close>

lemma place_untouched:
  assumes "place g (x, y, c) = Inr g'"
    and "\<not> (py_index (length g) y = Some r \<and> py_index (length (g ! r)) x = Some k)"
  shows "g' ! r ! k = g ! r ! k"
proof -
  from assms(1) obtain r' k' where r': "py_index (length g) y = Some r'"
    and k': "py_index (length (g ! r')) x = Some k'"
    and g': "g' = g[r' := (g ! r')[k' := c]]"
    by (auto simp: setitem_def split: option.splits)
  have lt: "r' < length g" using r' by (rule py_index_less)
  show ?thesis
  proof (cases "r = r'")
    case True
    with assms(2) r' k' have "k \<noteq> k'" by auto
    with True lt show ?thesis by (simp add: g')
  next
    case False
    then show ?thesis by (simp add: g')
  qed
qed

lemma populate_untouched:
  assumes "populate g es = Inr g'" and "r < length g"
    and "\<forall>(x, y, c) \<in> set es.
           \<not> (py_index (length g) y = Some r \<and> py_index (length (g ! r)) x = Some k)"
  shows "g' ! r ! k = g ! r ! k"
  using assms
proof (induction es arbitrary: g)
  case Nil
  then show ?case by simp
next
  case (Cons e es)
  obtain x y c where e: "e = (x, y, c)" by (cases e)
  from Cons.prems(1) obtain g1 where p: "place g (x, y, c) = Inr g1"
    and rest: "populate g1 es = Inr g'"
    by (auto simp: e split: sum.splits)
  have ml: "map length g1 = map length g" using p by (rule place_lengths)
  have l1: "length g1 = length g" and l2: "length (g1 ! r) = length (g ! r)"
    using same_lengths[OF ml] Cons.prems(2) by auto
  have "g' ! r ! k = g1 ! r ! k"
    using Cons.IH[OF rest] Cons.prems(2,3) l1 l2 by auto
  also have "g1 ! r ! k = g ! r ! k"
    using place_untouched[OF p] Cons.prems(3) by (auto simp: e)
  finally show ?case .
qed

lemma populate_append:
  "populate g (es @ fs) =
     (case populate g es of Inl e \<Rightarrow> Inl e | Inr g1 \<Rightarrow> populate g1 fs)"
  by (induction es arbitrary: g) (auto split: sum.splits)

lemma populate_last_write:
  assumes "populate g (pre @ (x, y, c) # post) = Inr g'"
    and r: "py_index (length g) y = Some r"
    and k: "py_index (length (g ! r)) x = Some k"
    and later: "\<forall>(x', y', c') \<in> set post.
           \<not> (py_index (length g) y' = Some r \<and> py_index (length (g ! r)) x' = Some k)"
  shows "g' ! r ! k = c"
proof -
  from assms(1) obtain g1 g2 where g1: "populate g pre = Inr g1"
    and g2: "place g1 (x, y, c) = Inr g2" and g': "populate g2 post = Inr g'"
    by (auto simp: populate_append split: sum.splits)
  have rl: "r < length g" using r by (rule py_index_less)
  have m1: "map length g1 = map length g" using g1 by (rule populate_lengths)
  have m2: "map length g2 = map length g1" using g2 by (rule place_lengths)
  have l1: "length g1 = length g" "length (g1 ! r) = length (g ! r)"
    using same_lengths[OF m1] rl by auto
  have l2: "length g2 = length g" "length (g2 ! r) = length (g ! r)"
    using same_lengths[OF m2] l1 rl by auto
  have kl: "k < length (g ! r)" using k by (rule py_index_less)
  have "g2 = g1[r := (g1 ! r)[k := c]]"
    using g2 r k l1 by (auto simp: setitem_def split: option.splits)
  then have "g2 ! r ! k = c" using rl kl l1 by simp
  moreover have "g' ! r ! k = g2 ! r ! k"
    using populate_untouched[OF g', of r k] later l2 rl by auto
  ultimately show ?thesis by simp
qed

subsection \<open>When the population loop succeeds\<close>

lemma populate_ok:
  assumes "length g = h" and "\<forall>row \<in> set g. length row = w"
    and "\<forall>(x, y, c) \<in> set es. py_index h y \<noteq> None \<and> py_index w x \<noteq> None"
  shows "\<exists>g'. populate g es = Inr g'"
  using assms
proof (induction es arbitrary: g)
  case Nil
  then show ?case by simp
next
  case (Cons e es)
  obtain x y c where e: "e = (x, y, c)" by (cases e)
  from Cons.prems(3) obtain r k where r: "py_index h y = Some r" and k: "py_index w x = Some k"
    by (auto simp: e)
  have rl: "r < length g" using r Cons.prems(1) by (auto dest: py_index_less)
  then have "length (g ! r) = w" using Cons.prems(2) by simp
  then have p: "place g e = Inr (g[r := (g ! r)[k := c]])"
    using r k Cons.prems(1) by (simp add: e setitem_def)
  have ml: "map length (g[r := (g ! r)[k := c]]) = map length g"
    using p by (rule place_lengths)
  have "length (g[r := (g ! r)[k := c]]) = h" using Cons.prems(1) by simp
  moreover have "\<forall>row \<in> set (g[r := (g ! r)[k := c]]). length row = w"
  proof
    fix row assume "row \<in> set (g[r := (g ! r)[k := c]])"
    then have "length row \<in> set (map length g)" using ml by (metis image_eqI set_map)
    then show "length row = w" using Cons.prems(2) by auto
  qed
  ultimately obtain g' where "populate (g[r := (g ! r)[k := c]]) es = Inr g'"
    using Cons.IH Cons.prems(3) by (metis list.set_intros(2))
  then show ?case using p by simp
qed

lemma populate_in_range:
  assumes "populate g es = Inr g'" and "length g = h" and "\<forall>row \<in> set g. length row = w"
    and "(x, y, c) \<in> set es"
  shows "py_index h y \<noteq> None \<and> py_index w x \<noteq> None"
  using assms
proof (induction es arbitrary: g)
  case Nil
  then show ?case by simp
next
  case (Cons e es)
  from Cons.prems(1) obtain g1 where p: "place g e = Inr g1"
    and rest: "populate g1 es = Inr g'"
    by (auto split: sum.splits)
  have ml: "map length g1 = map length g" using p by (rule place_lengths)
  show ?case
  proof (cases "e = (x, y, c)")
    case True
    from p obtain r k where r: "py_index (length g) y = Some r"
      and k: "py_index (length (g ! r)) x = Some k"
      by (auto simp: True setitem_def split: option.splits)
    have "r < length g" using r by (rule py_index_less)
    then have "length (g ! r) = w" using Cons.prems(3) by simp
    then show ?thesis using r k Cons.prems(2) by simp
  next
    case False
    then have mem: "(x, y, c) \<in> set es" using Cons.prems(4) by simp
    have "length g1 = h" using same_lengths(1)[OF ml] Cons.prems(2) by simp
    moreover have "\<forall>row \<in> set g1. length row = w"
    proof
      fix row assume "row \<in> set g1"
      then have "length row \<in> set (map length g)" using ml by (metis image_eqI set_map)
      then show "length row = w" using Cons.prems(3) by auto
    qed
    ultimately show ?thesis using Cons.IH[OF rest _ _ mem] by simp
  qed
qed

subsection \<open>The grid builder on a non-empty list\<close>

lemma x_of_eq: "(\<lambda>(x, _, _). x) = fst"
  by (simp add: fun_eq_iff split: prod.splits)

lemma y_of_eq: "(\<lambda>(_, y, _). y) = fst \<circ> snd"
  by (simp add: fun_eq_iff split: prod.splits)

lemma py_max_x:
  assumes "cs \<noteq> []"
  shows "py_max (map (\<lambda>(x, _, _). x) cs) = Inr (Max (fst ` set cs))"
proof -
  obtain e es where cs: "cs = e # es" using assms by (cases cs) auto
  show ?thesis
    using py_max_eq[of "fst e" "map fst es"] by (simp add: cs x_of_eq)
qed

lemma py_max_y:
  assumes "cs \<noteq> []"
  shows "py_max (map (\<lambda>(_, y, _). y) cs) = Inr (Max ((fst \<circ> snd) ` set cs))"
proof -
  obtain e es where cs: "cs = e # es" using assms by (cases cs) auto
  show ?thesis
    using py_max_eq[of "fst (snd e)" "map (fst \<circ> snd) es"]
    by (simp add: cs y_of_eq)
qed

lemma arrange_nonempty:
  assumes "cs \<noteq> []"
  shows "arrange_chars_into_grid cs sx sy =
         populate (blank_grid (Max (fst ` set cs)) (Max ((fst \<circ> snd) ` set cs))) cs"
  using assms by (simp add: arrange_chars_into_grid_def py_max_x py_max_y)

lemma blank_grid_length: "length (blank_grid mx my) = nat (my + 1)"
  by (simp add: blank_grid_def)

lemma blank_grid_rows: "\<forall>row \<in> set (blank_grid mx my). length row = nat (mx + 1)"
  by (simp add: blank_grid_def)

lemma blank_grid_cell:
  "r < nat (my + 1) \<Longrightarrow> k < nat (mx + 1) \<Longrightarrow> blank_grid mx my ! r ! k = '' ''"
  by (simp add: blank_grid_def)

lemma coord_le_Max:
  assumes "(x, y, c) \<in> set cs"
  shows "x \<le> Max (fst ` set cs)" and "y \<le> Max ((fst \<circ> snd) ` set cs)"
proof -
  have "x \<in> fst ` set cs" using assms by force
  then show "x \<le> Max (fst ` set cs)" by simp
  have "y \<in> (fst \<circ> snd) ` set cs" using assms by force
  then show "y \<le> Max ((fst \<circ> snd) ` set cs)" by simp
qed

lemma py_index_within: "0 \<le> i \<Longrightarrow> i \<le> m \<Longrightarrow> py_index (nat (m + 1)) i = Some (nat i)"
  by (simp add: py_index_def)

lemma arrange_nonneg_ok:
  assumes "\<forall>(x, y, c) \<in> set cs. 0 \<le> x \<and> 0 \<le> y"
  shows "\<exists>g. arrange_chars_into_grid cs sx sy = Inr g"
proof (cases "cs = []")
  case True
  then show ?thesis by (simp add: arrange_chars_into_grid_def)
next
  case False
  let ?mx = "Max (fst ` set cs)" and ?my = "Max ((fst \<circ> snd) ` set cs)"
  have "\<forall>(x, y, c) \<in> set cs.
          py_index (nat (?my + 1)) y \<noteq> None \<and> py_index (nat (?mx + 1)) x \<noteq> None"
    using assms coord_le_Max by (fastforce simp: py_index_within)
  then have "\<exists>g. populate (blank_grid ?mx ?my) cs = Inr g"
    using populate_ok[OF blank_grid_length blank_grid_rows] by blast
  then show ?thesis by (simp add: arrange_nonempty[OF False])
qed

lemma py_index_pos: "py_index n i \<noteq> None \<Longrightarrow> 0 < n"
  by (auto simp: py_index_def Let_def split: if_splits)

lemma arrange_dims:
  assumes "cs \<noteq> []" and "arrange_chars_into_grid cs sx sy = Inr g"
  shows "int (length g) = Max ((fst \<circ> snd) ` set cs) + 1"
    and "\<forall>row \<in> set g. int (length row) = Max (fst ` set cs) + 1"
    and "g \<noteq> []"
proof -
  let ?mx = "Max (fst ` set cs)" and ?my = "Max ((fst \<circ> snd) ` set cs)"
  have pop: "populate (blank_grid ?mx ?my) cs = Inr g"
    using assms by (simp add: arrange_nonempty)
  obtain x y c where mem: "(x, y, c) \<in> set cs"
    using assms(1) by (cases cs) auto
  have "py_index (nat (?my + 1)) y \<noteq> None \<and> py_index (nat (?mx + 1)) x \<noteq> None"
    using populate_in_range[OF pop blank_grid_length blank_grid_rows mem] .
  then have pos: "0 < nat (?my + 1)" "0 < nat (?mx + 1)"
    using py_index_pos by blast+
  have ml: "map length g = map length (blank_grid ?mx ?my)"
    using pop by (rule populate_lengths)
  have lg: "length g = nat (?my + 1)"
    using same_lengths(1)[OF ml] by (simp add: blank_grid_length)
  then show "int (length g) = ?my + 1" using pos by simp
  show "g \<noteq> []" using lg pos by auto
  show "\<forall>row \<in> set g. int (length row) = ?mx + 1"
  proof
    fix row assume "row \<in> set g"
    then have "length row \<in> set (map length (blank_grid ?mx ?my))"
      using ml by (metis image_eqI set_map)
    then have "length row = nat (?mx + 1)" using blank_grid_rows by auto
    then show "int (length row) = ?mx + 1" using pos by simp
  qed
qed

lemma Max_others:
  assumes "finite A" and "A \<noteq> {}" and "a \<le> Max A"
  shows "Max (insert a A) = Max A"
  using assms by (simp add: max_def)

lemma arrange_scenario:
  "arrange_chars_into_grid [(0, 1, ''A''), (1, 1, ''B''), (0, 0, ''C'')] 6 13 =
   Inr [[''C'', '' ''], [''A'', ''B'']]"
  by code_simp

subsection \<open>The renderer and the row loop of the parser\<close>

lemma print_rows_eq: "print_rows rows out = out @ map concat rows"
  by (induction rows arbitrary: out) auto

lemma print_grid_eq: "print_grid grid out = out @ map concat (rev grid)"
  by (simp add: print_grid_def print_rows_eq)

lemma parse_row_eq:
  "parse_row strip py_int cells characters =
     (if 3 \<le> length cells \<and> py_int (strip (cells ! 0)) \<noteq> None \<and>
         py_int (strip (cells ! 2)) \<noteq> None \<and> strip (cells ! 1) \<noteq> []
      then characters @ [(the (py_int (strip (cells ! 0))), the (py_int (strip (cells ! 2))),
                          strip (cells ! 1))]
      else characters)"
  by (auto simp: parse_row_def Let_def split: option.splits)

lemma parse_rows_eq:
  "parse_rows strip py_int rows characters =
     characters @
     map (\<lambda>cells. (the (py_int (strip (cells ! 0))), the (py_int (strip (cells ! 2))),
                    strip (cells ! 1)))
       (filter (\<lambda>cells. 3 \<le> length cells \<and> py_int (strip (cells ! 0)) \<noteq> None \<and>
                         py_int (strip (cells ! 2)) \<noteq> None \<and> strip (cells ! 1) \<noteq> [])
          rows)"
proof (induction rows arbitrary: characters)
  case Nil
  then show ?case by simp
next
  case (Cons row rows)
  show ?case by (simp add: Cons.IH parse_row_eq)
qed

section \<open>The claims\<close>

subsection \<open>C1: a document without a table\<close>

text \<open>
  Claim C1, as amended.  When the fetch succeeds with a non-empty body whose markup has
  no table element, the parser prints \<open>No table found in the document.\<close> and returns no
  entries; the orchestrator then finds the entry list empty and prints
  \<open>No characters found in the document.\<close> before it returns.  The whole output is
  these two lines, and no grid line.
\<close>

theorem no_table_output:
  assumes "get url = Inr html" and "html \<noteq> []" and "soup html = None"
  shows "parse_table_characters strip py_int soup html out = ([], out @ [''No table found in the document.'']) \<and>
         extract_secret_message_from_doc strip py_int get soup url out =
           (Returned, out @ [''No table found in the document.'',
                             ''No characters found in the document.''])"
  using assms
  by (simp add: fetch_and_parse_doc_def extract_secret_message_from_doc_def
      parse_table_characters_def)

text \<open>The theorem at a document that holds one paragraph.  No cell is read on this
  run, so the two built-ins are never called; they are given here as the identity and
  as the function that always fails.\<close>

theorem no_table_output_witness:
  "(\<lambda>u. Inr ''<p>plain text</p>'' :: string + string) ''url'' = Inr ''<p>plain text</p>'' \<and>
   ''<p>plain text</p>'' \<noteq> [] \<and>
   (\<lambda>s. None :: table option) ''<p>plain text</p>'' = None \<and>
   extract_secret_message_from_doc (\<lambda>s. s) (\<lambda>s. None)
     (\<lambda>u. Inr ''<p>plain text</p>'') (\<lambda>s. None) ''url'' [] =
     (Returned, [''No table found in the document.'',
                 ''No characters found in the document.''])"
  using no_table_output[where get = "\<lambda>u. Inr ''<p>plain text</p>''" and url = "''url''"
      and html = "''<p>plain text</p>''" and soup = "\<lambda>s. None" and out = "[]"
      and strip = "\<lambda>s. s" and py_int = "\<lambda>s. None"]
  by simp

text \<open>As stated, the claim promises one line of output.  On a document without a
  table the run prints two.\<close>

theorem no_table_output_counterexample:
  "extract_secret_message_from_doc (\<lambda>s. s) (\<lambda>s. None)
     (\<lambda>u. Inr ''<h1>Title</h1>'') (\<lambda>s. None) ''url'' [] =
     (Returned, [''No table found in the document.'',
                 ''No characters found in the document.'']) \<and>
   extract_secret_message_from_doc (\<lambda>s. s) (\<lambda>s. None)
     (\<lambda>u. Inr ''<h1>Title</h1>'') (\<lambda>s. None) ''url'' [] \<noteq>
     (Returned, [''No table found in the document.''])"
  by (simp add: extract_secret_message_from_doc_def fetch_and_parse_doc_def
      parse_table_characters_def)

subsection \<open>C2: normal termination\<close>

text \<open>
  Claim C2, as amended.  After a successful fetch, if every entry the parser produces
  has non-negative coordinates, the orchestrator returns normally, and when the body
  is not empty it has printed at least one line (a message or the grid).  The entries
  are those of the parser run with the same \<open>strip\<close> and \<open>py_int\<close> as the orchestrator,
  whatever the two are.  Nothing is said here about entries with a negative
  coordinate.
\<close>

theorem pipeline_terminates:
  assumes fetched: "get url = Inr html"
    and nonneg: "\<forall>(x, y, c) \<in> set (fst (parse_table_characters strip py_int soup html out)). 0 \<le> x \<and> 0 \<le> y"
  shows "\<exists>lines. extract_secret_message_from_doc strip py_int get soup url out = (Returned, out @ lines) \<and>
           (html \<noteq> [] \<longrightarrow> lines \<noteq> [])"
proof (cases "html = []")
  case True
  then show ?thesis
    using fetched by (simp add: fetch_and_parse_doc_def extract_secret_message_from_doc_def)
next
  case False
  obtain characters out2 where p: "parse_table_characters strip py_int soup html out = (characters, out2)"
    by (cases "parse_table_characters strip py_int soup html out")
  have run: "extract_secret_message_from_doc strip py_int get soup url out =
      (if characters = [] then (Returned, out2 @ [''No characters found in the document.''])
       else case arrange_chars_into_grid characters 6 13 of
              Inl e \<Rightarrow> (Raised e, out2)
            | Inr grid \<Rightarrow> (Returned, print_grid grid out2))"
    using fetched False p
    by (simp add: fetch_and_parse_doc_def extract_secret_message_from_doc_def)
  obtain pre where out2: "out2 = out @ pre"
    using p by (auto simp: parse_table_characters_def split: option.splits)
  show ?thesis
  proof (cases "characters = []")
    case True
    then show ?thesis using run out2 False by simp
  next
    case ne: False
    have "\<forall>(x, y, c) \<in> set characters. 0 \<le> x \<and> 0 \<le> y" using nonneg p by simp
    then obtain g where g: "arrange_chars_into_grid characters 6 13 = Inr g"
      using arrange_nonneg_ok by blast
    have "g \<noteq> []" using arrange_dims(3)[OF ne g] .
    then show ?thesis using run ne g out2 by (simp add: print_grid_eq)
  qed
qed

text \<open>The theorem at a table with a header row and the rows \<open>(0, A, 1)\<close>, \<open>(1, B, 1)\<close>,
  \<open>(0, C, 0)\<close>: the grid is printed top row first.  The cells read on this run are
  \<open>0\<close>, \<open>1\<close>, \<open>A\<close>, \<open>B\<close> and \<open>C\<close>: stripping leaves each as it is, and \<^verbatim>\<open>int\<close> gives 0
  and 1 on the first two.\<close>

theorem pipeline_terminates_witness:
  "list_all (\<lambda>(x, y, c). 0 \<le> x \<and> 0 \<le> y)
     (fst (parse_table_characters (\<lambda>s. s) (map_of [(''0'', 0), (''1'', 1)])
        (\<lambda>s. Some [[''x'', ''char'', ''y''], [''0'', ''A'', ''1''], [''1'', ''B'', ''1''],
                     [''0'', ''C'', ''0'']])
        ''<table>...</table>'' [])) \<and>
   extract_secret_message_from_doc (\<lambda>s. s) (map_of [(''0'', 0), (''1'', 1)])
     (\<lambda>u. Inr ''<table>...</table>'')
     (\<lambda>s. Some [[''x'', ''char'', ''y''], [''0'', ''A'', ''1''], [''1'', ''B'', ''1''],
                  [''0'', ''C'', ''0'']])
     ''url'' [] = (Returned, [''AB'', ''C ''])"
proof -
  let ?strip = "\<lambda>s :: string. s"
  let ?int = "map_of [(''0'', 0 :: int), (''1'', 1)]"
  let ?get = "\<lambda>u :: string. Inr ''<table>...</table>'' :: string + string"
  let ?soup = "\<lambda>s :: string. Some [[''x'', ''char'', ''y''], [''0'', ''A'', ''1''],
                 [''1'', ''B'', ''1''], [''0'', ''C'', ''0'']]"
  have parsed: "parse_table_characters ?strip ?int ?soup ''<table>...</table>'' [] =
      ([(0, 1, ''A''), (1, 1, ''B''), (0, 0, ''C'')], [])"
    by code_simp
  have run: "extract_secret_message_from_doc ?strip ?int ?get ?soup ''url'' [] =
      (Returned, [''AB'', ''C ''])"
    by code_simp
  have fetched: "?get ''url'' = Inr ''<table>...</table>''" by simp
  have nonneg: "\<forall>(x, y, c) \<in> set (fst (parse_table_characters ?strip ?int ?soup
                    ''<table>...</table>'' [])). 0 \<le> x \<and> 0 \<le> y"
    unfolding parsed by simp
  from pipeline_terminates[where get = ?get and soup = ?soup and strip = ?strip
      and py_int = ?int, OF fetched nonneg]
  obtain lines where
    "extract_secret_message_from_doc ?strip ?int ?get ?soup ''url'' [] =
       (Returned, [] @ lines)"
    by blast
  then show ?thesis unfolding parsed run by simp
qed

text \<open>As stated, the claim covers entries with negative coordinates.  A table whose
  only data row is \<open>(-1, A, 0)\<close> gives the entry \<open>(-1, 0, A)\<close>; the grid has one row and
  no column, and the store into it raises \<^verbatim>\<open>IndexError\<close>, which nothing catches.
  The cells read on this run are \<open>-1\<close>, \<open>A\<close> and \<open>0\<close>: stripping leaves each as it
  is, and \<^verbatim>\<open>int\<close> gives \<open>-1\<close> and 0.\<close>

theorem pipeline_terminates_counterexample:
  "parse_table_characters (\<lambda>s. s) (map_of [(''-1'', - 1), (''0'', 0)])
     (\<lambda>s. Some [[''x'', ''char'', ''y''], [''-1'', ''A'', ''0'']])
     ''<table>...</table>'' [] = ([(- 1, 0, ''A'')], []) \<and>
   extract_secret_message_from_doc (\<lambda>s. s) (map_of [(''-1'', - 1), (''0'', 0)])
     (\<lambda>u. Inr ''<table>...</table>'')
     (\<lambda>s. Some [[''x'', ''char'', ''y''], [''-1'', ''A'', ''0'']]) ''url'' [] =
     (Raised IndexError, [])"
  by code_simp

subsection \<open>C3: entries and the bounds of the grid\<close>

text \<open>
  Claim C3, as amended.  For every list of entries passed to the grid builder, every
  entry \<open>(x, y, c)\<close> of the list satisfies \<open>x \<le> max_x\<close> and \<open>y \<le> max_y\<close>, the maxima
  being computed from the same list; and an entry whose coordinates are not negative
  names a cell of the allocated grid, row \<open>y\<close> and column \<open>x\<close>.  The lower bounds
  \<open>0 \<le> x\<close> and \<open>0 \<le> y\<close> are not part of what the builder establishes.
\<close>

theorem entry_within_bounds:
  assumes "(x, y, c) \<in> set cs"
  shows "\<exists>max_x max_y.
           py_max (map (\<lambda>(x, _, _). x) cs) = Inr max_x \<and>
           py_max (map (\<lambda>(_, y, _). y) cs) = Inr max_y \<and>
           x \<le> max_x \<and> y \<le> max_y \<and>
           (0 \<le> x \<and> 0 \<le> y \<longrightarrow>
              nat y < length (blank_grid max_x max_y) \<and>
              nat x < length (blank_grid max_x max_y ! nat y))"
proof -
  let ?mx = "Max (fst ` set cs)" and ?my = "Max ((fst \<circ> snd) ` set cs)"
  have ne: "cs \<noteq> []" using assms by auto
  have mx: "py_max (map (\<lambda>(x, _, _). x) cs) = Inr ?mx"
    using ne by (rule py_max_x)
  have my: "py_max (map (\<lambda>(_, y, _). y) cs) = Inr ?my"
    using ne by (rule py_max_y)
  have le: "x \<le> ?mx" "y \<le> ?my" using coord_le_Max[OF assms] by auto
  have "nat y < length (blank_grid ?mx ?my) \<and> nat x < length (blank_grid ?mx ?my ! nat y)"
    if "0 \<le> x \<and> 0 \<le> y"
    using that le by (simp add: blank_grid_def)
  with mx my le show ?thesis by blast
qed

text \<open>The theorem at the entry \<open>(1, 1, B)\<close> of a three-entry list.\<close>

theorem entry_within_bounds_witness:
  "(1, 1, ''B'') \<in> set [(0, 1, ''A''), (1, 1, ''B''), (0, 0, ''C'')] \<and>
   py_max (map (\<lambda>(x, _, _). x) [(0, 1, ''A''), (1, 1, ''B''), (0, 0, ''C'')]) = Inr 1 \<and>
   py_max (map (\<lambda>(_, y, _). y) [(0, 1, ''A''), (1, 1, ''B''), (0, 0, ''C'')]) = Inr 1 \<and>
   nat 1 < length (blank_grid 1 1) \<and> nat 1 < length (blank_grid 1 1 ! nat 1)"
  using entry_within_bounds[of 1 1 "''B''" "[(0, 1, ''A''), (1, 1, ''B''), (0, 0, ''C'')]"]
  by (simp add: blank_grid_def)

text \<open>As stated, the claim has \<open>0 \<le> x \<le> max_x\<close> for every entry.  For the list that
  holds \<open>(-1, 0, a)\<close> alone, \<open>max_x\<close> is \<open>-1\<close>, the grid has one row without columns,
  and the entry names no cell of it.\<close>

theorem entry_within_bounds_counterexample:
  "py_max (map (\<lambda>(x, _, _). x) [(- 1, 0, ''a'')]) = Inr (- 1) \<and>
   py_max (map (\<lambda>(_, y, _). y) [(- 1, 0, ''a'')]) = Inr 0 \<and>
   \<not> (0 \<le> (- 1 :: int) \<and> (- 1 :: int) \<le> - 1) \<and>
   blank_grid (- 1) 0 = [[]] \<and>
   arrange_chars_into_grid [(- 1, 0, ''a'')] 6 13 = Inl IndexError"
  by (simp add: blank_grid_def arrange_chars_into_grid_def setitem_def py_index_def)

subsection \<open>C4: the dimensions of the grid\<close>

text \<open>
  Claim C4, as amended.  For the empty list the grid builder returns the empty grid.
  For every non-empty list whose coordinates are all non-negative it returns a grid;
  and whenever it returns a grid for a non-empty list, that grid has exactly
  \<open>max_y + 1\<close> rows and every row has exactly \<open>max_x + 1\<close> columns, \<open>max_x\<close> and
  \<open>max_y\<close> being the largest \<open>x\<close> and the largest \<open>y\<close> of the list, each taken on its
  own.
\<close>

theorem grid_dimensions:
  "arrange_chars_into_grid [] sx sy = Inr [] \<and>
   (cs \<noteq> [] \<and> (\<forall>(x, y, c) \<in> set cs. 0 \<le> x \<and> 0 \<le> y) \<longrightarrow>
      (\<exists>g. arrange_chars_into_grid cs sx sy = Inr g)) \<and>
   (\<forall>g. cs \<noteq> [] \<and> arrange_chars_into_grid cs sx sy = Inr g \<longrightarrow>
      int (length g) = Max ((fst \<circ> snd) ` set cs) + 1 \<and>
      (\<forall>row \<in> set g. int (length row) = Max (fst ` set cs) + 1))"
proof (intro conjI allI impI)
  show "arrange_chars_into_grid [] sx sy = Inr []"
    by (simp add: arrange_chars_into_grid_def)
next
  assume "cs \<noteq> [] \<and> (\<forall>(x, y, c) \<in> set cs. 0 \<le> x \<and> 0 \<le> y)"
  then show "\<exists>g. arrange_chars_into_grid cs sx sy = Inr g"
    using arrange_nonneg_ok by blast
next
  fix g assume "cs \<noteq> [] \<and> arrange_chars_into_grid cs sx sy = Inr g"
  then show "int (length g) = Max ((fst \<circ> snd) ` set cs) + 1"
    using arrange_dims(1) by blast
next
  fix g assume "cs \<noteq> [] \<and> arrange_chars_into_grid cs sx sy = Inr g"
  then show "\<forall>row \<in> set g. int (length row) = Max (fst ` set cs) + 1"
    using arrange_dims(2) by blast
qed

text \<open>The theorem at a three-entry list: two rows of two columns.\<close>

theorem grid_dimensions_witness:
  "[(0, 1, ''A''), (1, 1, ''B''), (0, 0, ''C'')] \<noteq> ([] :: entry list) \<and>
   list_all (\<lambda>(x, y, c). 0 \<le> x \<and> 0 \<le> y)
     ([(0, 1, ''A''), (1, 1, ''B''), (0, 0, ''C'')] :: entry list) \<and>
   arrange_chars_into_grid [(0, 1, ''A''), (1, 1, ''B''), (0, 0, ''C'')] 6 13 =
     Inr [[''C'', '' ''], [''A'', ''B'']] \<and>
   int (length [[''C'', '' ''], [''A'', ''B'']]) =
     Max ((fst \<circ> snd) ` set [(0, 1, ''A''), (1, 1, ''B''), (0::int, 0::int, ''C'')]) + 1 \<and>
   list_all (\<lambda>row. int (length row) =
       Max (fst ` set [(0::int, 1::int, ''A''), (1, 1, ''B''), (0, 0, ''C'')]) + 1)
     [[''C'', '' ''], [''A'', ''B'']]"
  using grid_dimensions[of 6 13 "[(0, 1, ''A''), (1, 1, ''B''), (0, 0, ''C'')]"]
  by (simp add: arrange_scenario)

text \<open>As stated, the claim gives a grid of \<open>max_y + 1\<close> rows for every non-empty list.
  For the list that holds \<open>(0, -5, a)\<close> alone, \<open>max_y + 1\<close> is \<open>-4\<close>, and the builder
  returns no grid: it raises \<^verbatim>\<open>IndexError\<close>.\<close>

theorem grid_dimensions_counterexample:
  "py_max (map (\<lambda>(_, y, _). y) [(0, - 5, ''a'')]) = Inr (- 5) \<and>
   arrange_chars_into_grid [(0, - 5, ''a'')] 6 13 = Inl IndexError"
  by (simp add: blank_grid_def arrange_chars_into_grid_def setitem_def py_index_def)

subsection \<open>C5: the contents of the cells\<close>

text \<open>
  Claim C5, as amended.  For every list of entries whose coordinates are all
  non-negative, the grid builder returns a grid in which, for every entry \<open>(x, y, c)\<close>
  of the list that no later entry repeats the coordinates of, the cell at row \<open>y\<close>,
  column \<open>x\<close> is \<open>c\<close> (so among entries with equal coordinates the last one in list
  order decides), and every cell whose coordinates no entry has holds the blank
  \<open>' '\<close>.  Nothing is said here about lists with a negative coordinate.
\<close>

theorem last_write_wins:
  assumes nonneg: "\<forall>(x, y, c) \<in> set cs. 0 \<le> x \<and> 0 \<le> y"
  shows "\<exists>g. arrange_chars_into_grid cs sx sy = Inr g \<and>
           (\<forall>pre x y c post.
              cs = pre @ (x, y, c) # post \<and> (\<forall>(x', y', c') \<in> set post. (x', y') \<noteq> (x, y))
              \<longrightarrow> g ! nat y ! nat x = c) \<and>
           (\<forall>r k.
              r < length g \<and> k < length (g ! r) \<and>
              (\<forall>(x, y, c) \<in> set cs. (x, y) \<noteq> (int k, int r))
              \<longrightarrow> g ! r ! k = '' '')"
proof (cases "cs = []")
  case True
  then show ?thesis by (simp add: arrange_chars_into_grid_def)
next
  case False
  let ?mx = "Max (fst ` set cs)" and ?my = "Max ((fst \<circ> snd) ` set cs)"
  let ?h = "nat (?my + 1)" and ?w = "nat (?mx + 1)"
  let ?g0 = "blank_grid ?mx ?my"
  obtain g where g: "arrange_chars_into_grid cs sx sy = Inr g"
    using arrange_nonneg_ok[OF nonneg] by blast
  then have pop: "populate ?g0 cs = Inr g" by (simp add: arrange_nonempty[OF False])
  have h0: "length ?g0 = ?h" by (rule blank_grid_length)
  have w0: "length (?g0 ! r) = ?w" if "r < ?h" for r
    using that blank_grid_rows[of ?mx ?my] h0 by simp
  have idx: "py_index ?h y = Some (nat y) \<and> py_index ?w x = Some (nat x)"
    if "(x, y, c) \<in> set cs" for x y c
    using that nonneg coord_le_Max[OF that] by (auto simp: py_index_within)
  have written: "g ! nat y ! nat x = c"
    if dec: "cs = pre @ (x, y, c) # post"
      and later: "\<forall>(x', y', c') \<in> set post. (x', y') \<noteq> (x, y)"
    for pre x y c post
  proof -
    have mem: "(x, y, c) \<in> set cs" by (simp add: dec)
    have r: "py_index (length ?g0) y = Some (nat y)" using idx[OF mem] h0 by simp
    have rl: "nat y < ?h" using idx[OF mem] py_index_less by blast
    have k: "py_index (length (?g0 ! nat y)) x = Some (nat x)"
      using idx[OF mem] w0[OF rl] by simp
    have xy: "0 \<le> x" "0 \<le> y" using nonneg mem by auto
    have "\<forall>(x', y', c') \<in> set post.
            \<not> (py_index (length ?g0) y' = Some (nat y) \<and>
               py_index (length (?g0 ! nat y)) x' = Some (nat x))"
    proof (clarify)
      fix x' y' c'
      assume m': "(x', y', c') \<in> set post"
        and a: "py_index (length ?g0) y' = Some (nat y)"
        and b: "py_index (length (?g0 ! nat y)) x' = Some (nat x)"
      have mem': "(x', y', c') \<in> set cs" using m' by (simp add: dec)
      have "0 \<le> x'" "0 \<le> y'" using nonneg mem' by auto
      moreover have "nat y' = nat y" "nat x' = nat x"
        using idx[OF mem'] a b h0 w0[OF rl] by auto
      ultimately have "x' = x \<and> y' = y" using xy by arith
      then show False using later m' by auto
    qed
    then show ?thesis
      using populate_last_write[OF _ r k] pop dec by blast
  qed
  have blank: "g ! r ! k = '' ''"
    if rk: "r < length g \<and> k < length (g ! r) \<and>
           (\<forall>(x, y, c) \<in> set cs. (x, y) \<noteq> (int k, int r))"
    for r k
  proof -
    have ml: "map length g = map length ?g0" using pop by (rule populate_lengths)
    have rl: "r < ?h" using rk same_lengths(1)[OF ml] h0 by simp
    then have rl0: "r < length ?g0" using h0 by simp
    have kl: "k < ?w" using rk same_lengths(2)[OF ml rl0] w0[OF rl] by simp
    have "\<forall>(x, y, c) \<in> set cs.
            \<not> (py_index (length ?g0) y = Some r \<and> py_index (length (?g0 ! r)) x = Some k)"
    proof (clarify)
      fix x y c
      assume m: "(x, y, c) \<in> set cs"
        and a: "py_index (length ?g0) y = Some r"
        and b: "py_index (length (?g0 ! r)) x = Some k"
      have "0 \<le> x" "0 \<le> y" using nonneg m by auto
      moreover have "nat y = r" "nat x = k" using idx[OF m] a b h0 w0[OF rl] by auto
      ultimately have "(x, y) = (int k, int r)" by auto
      then show False using rk m by auto
    qed
    then have "g ! r ! k = ?g0 ! r ! k"
      using populate_untouched[OF pop rl0] by blast
    then show ?thesis using blank_grid_cell[OF rl kl] by simp
  qed
  from g written blank show ?thesis by blast
qed

text \<open>The theorem at a list in which \<open>(0, 1)\<close> occurs twice: the later glyph \<open>Z\<close> stays,
  and the cell \<open>(1, 0)\<close>, which no entry names, is blank.\<close>

theorem last_write_wins_witness:
  "list_all (\<lambda>(x, y, c). 0 \<le> x \<and> 0 \<le> y)
     ([(0, 1, ''A''), (1, 1, ''B''), (0, 0, ''C''), (0, 1, ''Z'')] :: entry list) \<and>
   arrange_chars_into_grid [(0, 1, ''A''), (1, 1, ''B''), (0, 0, ''C''), (0, 1, ''Z'')] 6 13 =
     Inr [[''C'', '' ''], [''Z'', ''B'']] \<and>
   [[''C'', '' ''], [''Z'', ''B'']] ! nat 1 ! nat 0 = ''Z'' \<and>
   [[''C'', '' ''], [''Z'', ''B'']] ! 0 ! 1 = '' ''"
proof -
  let ?cs = "[(0, 1, ''A''), (1, 1, ''B''), (0, 0, ''C''), (0, 1, ''Z'')] :: entry list"
  let ?g = "[[''C'', '' ''], [''Z'', ''B'']]"
  have nonneg: "\<forall>(x, y, c) \<in> set ?cs. 0 \<le> x \<and> 0 \<le> y" by simp
  have run: "arrange_chars_into_grid ?cs 6 13 = Inr ?g" by code_simp
  from last_write_wins[OF nonneg, of 6 13] run
  have written: "\<forall>pre x y c post.
          ?cs = pre @ (x, y, c) # post \<and> (\<forall>(x', y', c') \<in> set post. (x', y') \<noteq> (x, y))
          \<longrightarrow> ?g ! nat y ! nat x = c"
    and blank: "\<forall>r k. r < length ?g \<and> k < length (?g ! r) \<and>
          (\<forall>(x, y, c) \<in> set ?cs. (x, y) \<noteq> (int k, int r)) \<longrightarrow> ?g ! r ! k = '' ''"
    by auto
  have "?cs = [(0, 1, ''A''), (1, 1, ''B''), (0, 0, ''C'')] @ (0, 1, ''Z'') # []" by simp
  then have z: "?g ! nat 1 ! nat 0 = ''Z''" using written by fastforce
  have "(0::nat) < length ?g \<and> (1::nat) < length (?g ! 0) \<and>
        (\<forall>(x, y, c) \<in> set ?cs. (x, y) \<noteq> (int 1, int 0))"
    by simp
  then have b: "?g ! 0 ! 1 = '' ''" using blank by blast
  show ?thesis using run z b by simp
qed

text \<open>As stated, the claim covers every list.  In the list below no later entry has
  the coordinates \<open>(1, 0)\<close> of the first one, yet the cell at row 0, column 1 ends as
  \<open>b\<close>: the index \<open>-1\<close> of the second entry counts from the right end of the row.\<close>

theorem last_write_wins_counterexample:
  "arrange_chars_into_grid [(1, 0, ''a''), (- 1, 0, ''b'')] 6 13 = Inr [['' '', ''b'']] \<and>
   [['' '', ''b'']] ! nat 0 ! nat 1 \<noteq> ''a''"
  by code_simp

subsection \<open>C6: the renderer\<close>

text \<open>
  Claim C6.  For every grid the renderer prints one line per row, in reversed row
  order: line \<open>i\<close> of its output is the concatenation, with no separator, of the cells
  of row \<open>length grid - 1 - i\<close>, so the first line is the last row and the last line
  is row 0.  An empty grid adds no line to the output.
\<close>

theorem print_grid_reversed:
  "print_grid [] out = out \<and>
   (\<exists>lines. print_grid grid out = out @ lines \<and> length lines = length grid \<and>
      (\<forall>i < length grid. lines ! i = concat (grid ! (length grid - 1 - i))))"
proof -
  have "\<forall>i < length grid. map concat (rev grid) ! i = concat (grid ! (length grid - 1 - i))"
    by (simp add: rev_nth)
  then show ?thesis by (simp add: print_grid_eq)
qed

text \<open>The theorem at a grid of two rows.\<close>

theorem print_grid_reversed_witness:
  "print_grid [[''C'', '' ''], [''A'', ''B'']] [] = [''AB'', ''C ''] \<and>
   (0::nat) < length [[''C'', '' ''], [''A'', ''B'']] \<and>
   [''AB'', ''C ''] ! 0 = concat ([[''C'', '' ''], [''A'', ''B'']] ! (2 - 1 - 0)) \<and>
   (1::nat) < length [[''C'', '' ''], [''A'', ''B'']] \<and>
   [''AB'', ''C ''] ! 1 = concat ([[''C'', '' ''], [''A'', ''B'']] ! (2 - 1 - 1))"
proof -
  let ?g = "[[''C'', '' ''], [''A'', ''B'']]"
  from print_grid_reversed[of "[]" ?g]
  obtain lines where l: "print_grid ?g [] = [] @ lines"
    and n: "\<forall>i < length ?g. lines ! i = concat (?g ! (length ?g - 1 - i))"
    by blast
  have "lines ! 0 = concat (?g ! (length ?g - 1 - 0))" using n by simp
  moreover have "lines ! 1 = concat (?g ! (length ?g - 1 - 1))" using n by simp
  moreover have "print_grid ?g [] = [''AB'', ''C '']" by code_simp
  ultimately show ?thesis using l by simp
qed

subsection \<open>C7: the rows the parser keeps\<close>

text \<open>
  Claim C7.  For every markup string that contains a table, the parser passes over the
  first row, and from the rows after it keeps, in their order, exactly those with at
  least three cells whose cells 0 and 2 are integers once stripped (\<^verbatim>\<open>int\<close> does not
  raise on the stripped text) and whose cell 1 is not empty once stripped; a kept row
  gives the entry made of the two integers and the stripped cell 1.  The other rows
  are left out and nothing is printed.  This holds whatever \<open>strip\<close> and \<open>py_int\<close> are.
\<close>

theorem parse_table_rows:
  assumes "soup markup = Some rows"
  shows "parse_table_characters strip py_int soup markup out =
     (map (\<lambda>cells. (the (py_int (strip (cells ! 0))), the (py_int (strip (cells ! 2))),
                     strip (cells ! 1)))
        (filter (\<lambda>cells. 3 \<le> length cells \<and> py_int (strip (cells ! 0)) \<noteq> None \<and>
                          py_int (strip (cells ! 2)) \<noteq> None \<and> strip (cells ! 1) \<noteq> [])
           (drop 1 rows)),
      out)"
  using assms by (simp add: parse_table_characters_def parse_rows_eq)

text \<open>The theorem at a table of a header and six rows, of which two are kept: one row
  has a word for \<open>x\<close>, one has two cells, one has a blank character, one has a word for
  \<open>y\<close>.  The two built-ins are given by their values on the cells of this table:
  stripping changes the three cells that have blanks around them or are blank,
  and \<^verbatim>\<open>int\<close> succeeds on the numerals and fails on the two words.\<close>

theorem parse_table_rows_witness:
  "(\<lambda>s. Some [[''0'', ''H'', ''0''], [''0'', ''A'', ''1''], [''one'', ''B'', ''1''],
              [''1'', ''B''], ['' 2 '', '' Z '', ''-3'', ''more''], [''3'', ''  '', ''4''],
              [''5'', ''Q'', ''six'']]) ''<table>...</table>'' =
     Some [[''0'', ''H'', ''0''], [''0'', ''A'', ''1''], [''one'', ''B'', ''1''],
           [''1'', ''B''], ['' 2 '', '' Z '', ''-3'', ''more''], [''3'', ''  '', ''4''],
           [''5'', ''Q'', ''six'']] \<and>
   parse_table_characters
     (\<lambda>s. case map_of [('' 2 '', ''2''), ('' Z '', ''Z''), (''  '', [])] s of
             None \<Rightarrow> s | Some t \<Rightarrow> t)
     (map_of [(''0'', 0), (''1'', 1), (''2'', 2), (''-3'', - 3), (''3'', 3), (''4'', 4),
              (''5'', 5)])
     (\<lambda>s. Some [[''0'', ''H'', ''0''], [''0'', ''A'', ''1''], [''one'', ''B'', ''1''],
                 [''1'', ''B''], ['' 2 '', '' Z '', ''-3'', ''more''], [''3'', ''  '', ''4''],
                 [''5'', ''Q'', ''six'']])
     ''<table>...</table>'' [] = ([(0, 1, ''A''), (2, - 3, ''Z'')], [])"
proof -
  let ?rows = "[[''0'', ''H'', ''0''], [''0'', ''A'', ''1''], [''one'', ''B'', ''1''],
                [''1'', ''B''], ['' 2 '', '' Z '', ''-3'', ''more''], [''3'', ''  '', ''4''],
                [''5'', ''Q'', ''six'']]"
  let ?soup = "\<lambda>s :: string. Some ?rows"
  let ?strip = "\<lambda>s :: string.
      case map_of [('' 2 '', ''2''), ('' Z '', ''Z''), (''  '', [])] s of
        None \<Rightarrow> s | Some t \<Rightarrow> t"
  let ?int = "map_of [(''0'', 0 :: int), (''1'', 1), (''2'', 2), (''-3'', - 3), (''3'', 3),
                      (''4'', 4), (''5'', 5)]"
  have table: "?soup ''<table>...</table>'' = Some ?rows" by simp
  have kept: "map (\<lambda>cells. (the (?int (?strip (cells ! 0))), the (?int (?strip (cells ! 2))),
                     ?strip (cells ! 1)))
        (filter (\<lambda>cells. 3 \<le> length cells \<and> ?int (?strip (cells ! 0)) \<noteq> None \<and>
                          ?int (?strip (cells ! 2)) \<noteq> None \<and> ?strip (cells ! 1) \<noteq> [])
           (drop 1 ?rows)) = [(0, 1, ''A''), (2, - 3, ''Z'')]"
    by code_simp
  have "parse_table_characters ?strip ?int ?soup ''<table>...</table>'' [] =
        ([(0, 1, ''A''), (2, - 3, ''Z'')], [])"
    using parse_table_rows[where soup = ?soup and markup = "''<table>...</table>''"
        and rows = ?rows and out = "[]" and strip = ?strip and py_int = ?int, OF table]
    unfolding kept .
  then show ?thesis by simp
qed

subsection \<open>C8: a failed fetch\<close>

text \<open>
  Claim C8.  When the request fails, the fetcher prints one line, \<open>Error fetching the
  document: \<close> followed by the description of the failure, and returns no content in
  place of raising; the orchestrator then returns at once.  Whatever the markup
  parser would do, the output is that one line: nothing is parsed, built or rendered.
\<close>

theorem fetch_failure_stops:
  assumes "get url = Inl err"
  shows "fetch_and_parse_doc get url out =
           (None, out @ [''Error fetching the document: '' @ err]) \<and>
         extract_secret_message_from_doc strip py_int get soup url out =
           (Returned, out @ [''Error fetching the document: '' @ err])"
  using assms by (simp add: fetch_and_parse_doc_def extract_secret_message_from_doc_def)

text \<open>The theorem at a request that ends in a 404 answer.  The markup parser is one
  that would give a table with an entry, and the built-ins are right on its cells;
  none of them is reached.\<close>

theorem fetch_failure_stops_witness:
  "(\<lambda>u. Inl ''404 Client Error: Not Found'' :: string + string) ''url'' =
     Inl ''404 Client Error: Not Found'' \<and>
   fetch_and_parse_doc (\<lambda>u. Inl ''404 Client Error: Not Found'') ''url'' [] =
     (None, [''Error fetching the document: 404 Client Error: Not Found'']) \<and>
   extract_secret_message_from_doc (\<lambda>s. s) (map_of [(''0'', 0)])
     (\<lambda>u. Inl ''404 Client Error: Not Found'')
     (\<lambda>s. Some [[''x'', ''char'', ''y''], [''0'', ''A'', ''0'']]) ''url'' [] =
     (Returned, [''Error fetching the document: 404 Client Error: Not Found''])"
  using fetch_failure_stops[where get = "\<lambda>u. Inl ''404 Client Error: Not Found''"
      and url = "''url''" and err = "''404 Client Error: Not Found''" and out = "[]"
      and soup = "\<lambda>s. Some [[''x'', ''char'', ''y''], [''0'', ''A'', ''0'']]"
      and strip = "\<lambda>s. s" and py_int = "map_of [(''0'', 0)]"]
  by simp

subsection \<open>C9: the scale parameters\<close>

text \<open>
  Claim C9.  For every list of entries and any two choices of \<open>x_scale\<close> and
  \<open>y_scale\<close>, \<open>arrange_chars_into_grid\<close> returns the same result: the scales are
  never read.
\<close>

theorem arrange_ignores_scales:
  "arrange_chars_into_grid characters x_scale y_scale =
   arrange_chars_into_grid characters x_scale' y_scale'"
  by (simp add: arrange_chars_into_grid_def)

subsection \<open>C10: the x coordinate -1\<close>

text \<open>
  Claim C10, as amended.  Take a list that holds an entry \<open>(-1, y, c)\<close> and at least one
  other entry, where all other entries have non-negative coordinates, \<open>max_x\<close> and
  \<open>max_y\<close> are the maxima of the other entries, and \<open>0 \<le> y \<le> max_y\<close>.  Then the store
  for \<open>(-1, y, c)\<close> into a grid of \<open>max_y + 1\<close> rows of \<open>max_x + 1\<close> columns succeeds
  and writes \<open>c\<close> into column \<open>max_x\<close>, the last one, of row \<open>y\<close>; the grid builder
  returns a grid of that shape; and \<open>c\<close> is still in that cell of the returned grid
  unless a later entry has the coordinates \<open>(max_x, y)\<close>.
\<close>

theorem negative_one_wraps:
  assumes cs: "cs = pre @ (- 1, y, c) # post"
    and ne: "pre @ post \<noteq> []"
    and nonneg: "\<forall>(x', y', c') \<in> set (pre @ post). 0 \<le> x' \<and> 0 \<le> y'"
    and mx: "max_x = Max (fst ` set (pre @ post))"
    and my: "max_y = Max ((fst \<circ> snd) ` set (pre @ post))"
    and y: "0 \<le> y" "y \<le> max_y"
  shows "(\<forall>g0. length g0 = nat (max_y + 1) \<and> (\<forall>row \<in> set g0. length row = nat (max_x + 1))
            \<longrightarrow> place g0 (- 1, y, c) = Inr (g0[nat y := (g0 ! nat y)[nat max_x := c]])) \<and>
         (\<exists>g. arrange_chars_into_grid cs sx sy = Inr g \<and>
              int (length g) = max_y + 1 \<and>
              int (length (g ! nat y)) = max_x + 1 \<and>
              ((\<forall>(x', y', c') \<in> set post. (x', y') \<noteq> (max_x, y))
                 \<longrightarrow> g ! nat y ! nat max_x = c))"
proof -
  let ?h = "nat (max_y + 1)" and ?w = "nat (max_x + 1)"
  let ?g0 = "blank_grid max_x max_y"
  obtain x0 y0 c0 where m0: "(x0, y0, c0) \<in> set (pre @ post)"
    using ne by (cases "pre @ post") auto
  have "0 \<le> x0" using nonneg m0 by auto
  then have mx0: "0 \<le> max_x" using coord_le_Max(1)[OF m0] mx by simp
  have xs: "fst ` set cs = insert (- 1) (fst ` set (pre @ post))"
    by (auto simp: cs)
  have ys: "(fst \<circ> snd) ` set cs = insert y ((fst \<circ> snd) ` set (pre @ post))"
    by (auto simp: cs)
  have nes: "fst ` set (pre @ post) \<noteq> {}" "(fst \<circ> snd) ` set (pre @ post) \<noteq> {}"
    using ne by auto
  have Mx: "Max (fst ` set cs) = max_x"
    unfolding xs mx using mx0 nes(1) by (intro Max_others) (auto simp: mx)
  have My: "Max ((fst \<circ> snd) ` set cs) = max_y"
    unfolding ys my using y(2) nes(2) by (intro Max_others) (auto simp: my)
  have cne: "cs \<noteq> []" by (simp add: cs)
  have ry: "py_index ?h y = Some (nat y)" using y by (rule py_index_within)
  have kx: "py_index ?w (- 1) = Some (nat max_x)" using mx0 by (simp add: py_index_def)
  have step: "place g0 (- 1, y, c) = Inr (g0[nat y := (g0 ! nat y)[nat max_x := c]])"
    if "length g0 = ?h \<and> (\<forall>row \<in> set g0. length row = ?w)" for g0
  proof -
    have "nat y < length g0" using ry that py_index_less by fastforce
    then have "length (g0 ! nat y) = ?w" using that by simp
    then show ?thesis using ry kx that by (simp add: setitem_def)
  qed
  have idx: "py_index ?h y' = Some (nat y') \<and> py_index ?w x' = Some (nat x')"
    if m: "(x', y', c') \<in> set (pre @ post)" for x' y' c'
  proof -
    have "0 \<le> x' \<and> 0 \<le> y'" using nonneg m by blast
    moreover have "x' \<le> max_x" "y' \<le> max_y"
      using coord_le_Max[OF m] mx my by simp_all
    ultimately show ?thesis by (simp add: py_index_within)
  qed
  have "\<forall>(x', y', c') \<in> set cs. py_index ?h y' \<noteq> None \<and> py_index ?w x' \<noteq> None"
    using idx ry kx by (auto simp: cs)
  then obtain g where pop: "populate ?g0 cs = Inr g"
    using populate_ok[OF blank_grid_length blank_grid_rows] by blast
  then have g: "arrange_chars_into_grid cs sx sy = Inr g"
    using arrange_nonempty[OF cne, of sx sy] unfolding Mx My by simp
  have h0: "length ?g0 = ?h" by (rule blank_grid_length)
  have rl: "nat y < ?h" using ry by (rule py_index_less)
  have w0: "length (?g0 ! nat y) = ?w"
    using rl blank_grid_rows[of max_x max_y] h0 by simp
  have lg: "int (length g) = max_y + 1" using arrange_dims(1)[OF cne g] My by simp
  have "nat y < length g" using lg y by simp
  then have lr: "int (length (g ! nat y)) = max_x + 1"
    using arrange_dims(2)[OF cne g] Mx by simp
  have cell: "g ! nat y ! nat max_x = c"
    if later: "\<forall>(x', y', c') \<in> set post. (x', y') \<noteq> (max_x, y)"
  proof -
    have "\<forall>(x', y', c') \<in> set post.
            \<not> (py_index (length ?g0) y' = Some (nat y) \<and>
               py_index (length (?g0 ! nat y)) x' = Some (nat max_x))"
    proof (clarify)
      fix x' y' c'
      assume m': "(x', y', c') \<in> set post"
        and a: "py_index (length ?g0) y' = Some (nat y)"
        and b: "py_index (length (?g0 ! nat y)) x' = Some (nat max_x)"
      have mem': "(x', y', c') \<in> set (pre @ post)" using m' by simp
      have "0 \<le> x' \<and> 0 \<le> y'" using nonneg mem' by blast
      moreover have "nat y' = nat y" "nat x' = nat max_x"
        using idx[OF mem'] a b h0 w0 by auto
      ultimately have "x' = max_x \<and> y' = y" using y(1) mx0 by arith
      then show False using later m' by auto
    qed
    moreover have "py_index (length ?g0) y = Some (nat y)" using ry h0 by simp
    moreover have "py_index (length (?g0 ! nat y)) (- 1) = Some (nat max_x)"
      using kx w0 by simp
    ultimately show ?thesis
      using populate_last_write[of ?g0 pre "- 1" y c post g "nat y" "nat max_x"] pop cs
      by blast
  qed
  from step g lg lr cell show ?thesis by blast
qed

text \<open>The theorem at a list whose second entry has \<open>x = -1\<close>: its glyph lands in column
  1 of row 0.\<close>

theorem negative_one_wraps_witness:
  "[(0, 1, ''a'')] @ [(1, 1, ''b'')] \<noteq> ([] :: entry list) \<and>
   list_all (\<lambda>(x, y, c). 0 \<le> x \<and> 0 \<le> y)
     ([(0, 1, ''a'')] @ [(1, 1, ''b'')] :: entry list) \<and>
   (1::int) = Max (fst ` set ([(0::int, 1::int, ''a'')] @ [(1, 1, ''b'')])) \<and>
   (1::int) = Max ((fst \<circ> snd) ` set ([(0::int, 1::int, ''a'')] @ [(1, 1, ''b'')])) \<and>
   (0::int) \<le> 0 \<and> (0::int) \<le> 1 \<and>
   place (blank_grid 1 1) (- 1, 0, ''c'') = Inr [['' '', ''c''], ['' '', '' '']] \<and>
   arrange_chars_into_grid [(0, 1, ''a''), (- 1, 0, ''c''), (1, 1, ''b'')] 6 13 =
     Inr [['' '', ''c''], [''a'', ''b'']] \<and>
   [['' '', ''c''], [''a'', ''b'']] ! nat 0 ! nat 1 = ''c''"
proof -
  let ?pre = "[(0, 1, ''a'')] :: entry list" and ?post = "[(1, 1, ''b'')] :: entry list"
  let ?cs = "[(0, 1, ''a''), (- 1, 0, ''c''), (1, 1, ''b'')] :: entry list"
  let ?g = "[['' '', ''c''], [''a'', ''b'']]"
  have cs: "?cs = ?pre @ (- 1, 0, ''c'') # ?post" by simp
  have ne: "?pre @ ?post \<noteq> []" by simp
  have nonneg: "\<forall>(x', y', c') \<in> set (?pre @ ?post). 0 \<le> x' \<and> 0 \<le> y'" by simp
  have mx: "(1::int) = Max (fst ` set (?pre @ ?post))" by simp
  have my: "(1::int) = Max ((fst \<circ> snd) ` set (?pre @ ?post))" by simp
  have y: "(0::int) \<le> 0" "(0::int) \<le> 1" by simp_all
  have run: "arrange_chars_into_grid ?cs 6 13 = Inr ?g" by code_simp
  have shape: "length (blank_grid 1 1) = nat (1 + 1) \<and>
               (\<forall>row \<in> set (blank_grid 1 1). length row = nat (1 + 1))"
    by (simp add: blank_grid_def)
  from negative_one_wraps[OF cs ne nonneg mx my y, of 6 13] run
  have step: "\<forall>g0. length g0 = nat (1 + 1) \<and> (\<forall>row \<in> set g0. length row = nat (1 + 1))
          \<longrightarrow> place g0 (- 1, 0, ''c'') = Inr (g0[nat 0 := (g0 ! nat 0)[nat 1 := ''c'']])"
    and cell: "(\<forall>(x', y', c') \<in> set ?post. (x', y') \<noteq> (1, 0)) \<longrightarrow> ?g ! nat 0 ! nat 1 = ''c''"
    by auto
  have "place (blank_grid 1 1) (- 1, 0, ''c'') =
        Inr ((blank_grid 1 1)[nat 0 := (blank_grid 1 1 ! nat 0)[nat 1 := ''c'']])"
    using step shape by blast
  then have s: "place (blank_grid 1 1) (- 1, 0, ''c'') = Inr [['' '', ''c''], ['' '', '' '']]"
    by (simp add: blank_grid_def numeral_2_eq_2)
  have c: "?g ! nat 0 ! nat 1 = ''c''" using cell by simp
  show ?thesis using run s c by simp
qed

text \<open>As stated, the claim lets the other entries be any.  Here the maxima of the
  other entries are \<open>max_x = 0\<close> and \<open>max_y = 0\<close>, the entry \<open>(-1, 0, b)\<close> is as the
  claim asks, and the builder still fails: the third entry has \<open>x = -7\<close>, which names
  no column.\<close>

theorem negative_one_wraps_counterexample:
  "arrange_chars_into_grid [(0, 0, ''a''), (- 1, 0, ''b''), (- 7, 0, ''c'')] 6 13 =
   Inl IndexError"
  by code_simp

end
